theory Spec2Isabelle
  imports Complex_Main "HOL-Library.Word"
begin

section \<open>The XOR notebook: values\<close>

text \<open>
  The notebook \<^verbatim>\<open>xor/xor_tutorial.ipynb\<close> is a sequence of Python cells. Its
  numbers are numpy \<^verbatim>\<open>float64\<close> values (IEEE 754 binary64) and, in the arrays
  built from Python integers, \<^verbatim>\<open>int64\<close> values. A float is a real number, an
  infinity or not-a-number; an arithmetic result is rounded to the nearest binary64 value,
  ties to even, and overflows to an infinity, as numpy does (a division by zero or a
  logarithm of zero is a warning, not an exception). Two things are left out: the sign of
  zero, on which no result below depends (no function here divides by a zero), and the
  last-bit error of the library's \<^verbatim>\<open>exp\<close> and \<^verbatim>\<open>log\<close>, which are taken
  as correctly rounded.
\<close>

datatype npfloat = Fin real | PInf | NInf | NaN

text \<open>The sign of an infinite result.\<close>

definition signed_inf :: "bool \<Rightarrow> npfloat" where
  "signed_inf positive = (if positive then PInf else NInf)"

text \<open>
  Rounding to binary64. A binary64 value is an integer of magnitude below \<open>2 ^ 53\<close>
  times a power of two, the exponent at least \<open>- 1074\<close>. The unit in the last place of
  \<open>x\<close> is two to the power \<open>ulp_exponent x\<close>, which stops falling at the subnormal
  numbers; \<open>rounded x\<close> is the multiple of that unit nearest to \<open>x\<close>, the even one of
  two equally near; a result of magnitude \<open>2 ^ 1024\<close> or more is an infinity.
\<close>

definition round_even :: "real \<Rightarrow> int" where
  "round_even q =
     (let f = \<lfloor>q\<rfloor>; r = q - of_int f
      in if r < 1 / 2 then f else if 1 / 2 < r then f + 1 else if even f then f else f + 1)"

definition ulp_exponent :: "real \<Rightarrow> int" where
  "ulp_exponent x = max \<lfloor>log 2 \<bar>x\<bar>\<rfloor> (- 1022) - 52"

definition rounded :: "real \<Rightarrow> real" where
  "rounded x = (let u = 2 powr of_int (ulp_exponent x) in of_int (round_even (x / u)) * u)"

definition overflow_threshold :: real where
  "overflow_threshold = 2 ^ 1024"

definition round64 :: "real \<Rightarrow> npfloat" where
  "round64 x =
     (if overflow_threshold \<le> \<bar>rounded x\<bar> then signed_inf (0 < x) else Fin (rounded x))"

text \<open>The arithmetic of two floats; negation is exact.\<close>

fun fneg :: "npfloat \<Rightarrow> npfloat" where
  "fneg (Fin x) = Fin (- x)"
| "fneg PInf = NInf"
| "fneg NInf = PInf"
| "fneg NaN = NaN"

fun fadd :: "npfloat \<Rightarrow> npfloat \<Rightarrow> npfloat" where
  "fadd NaN _ = NaN"
| "fadd _ NaN = NaN"
| "fadd (Fin x) (Fin y) = round64 (x + y)"
| "fadd PInf NInf = NaN"
| "fadd NInf PInf = NaN"
| "fadd PInf _ = PInf"
| "fadd NInf _ = NInf"
| "fadd (Fin x) PInf = PInf"
| "fadd (Fin x) NInf = NInf"

definition fsub :: "npfloat \<Rightarrow> npfloat \<Rightarrow> npfloat" where
  "fsub a b = fadd a (fneg b)"

fun fmul :: "npfloat \<Rightarrow> npfloat \<Rightarrow> npfloat" where
  "fmul NaN _ = NaN"
| "fmul _ NaN = NaN"
| "fmul (Fin x) (Fin y) = round64 (x * y)"
| "fmul (Fin x) PInf = (if x = 0 then NaN else signed_inf (0 < x))"
| "fmul (Fin x) NInf = (if x = 0 then NaN else signed_inf (x < 0))"
| "fmul PInf (Fin y) = (if y = 0 then NaN else signed_inf (0 < y))"
| "fmul NInf (Fin y) = (if y = 0 then NaN else signed_inf (y < 0))"
| "fmul PInf PInf = PInf"
| "fmul PInf NInf = NInf"
| "fmul NInf PInf = NInf"
| "fmul NInf NInf = PInf"



fun flog :: "npfloat \<Rightarrow> npfloat" where
  "flog (Fin x) = (if x = 0 then NInf else if x < 0 then NaN else round64 (ln x))"
| "flog PInf = PInf"
| "flog NInf = NaN"
| "flog NaN = NaN"

definition is_finite :: "npfloat \<Rightarrow> bool" where
  "is_finite v = (case v of Fin _ \<Rightarrow> True | _ \<Rightarrow> False)"

text \<open>
  An \<^verbatim>\<open>int64\<close> is a 64-bit word read as a signed number; its float is the nearest one.
\<close>

definition float_of_int64 :: "64 word \<Rightarrow> npfloat" where
  "float_of_int64 w = round64 (of_int (sint w))"

text \<open>
  A numeric argument is a float, an \<^verbatim>\<open>int64\<close> or a numpy array of any depth. An operation
  with a number on one side (\<^verbatim>\<open>-x\<close>, \<^verbatim>\<open>np.exp(x)\<close>, \<^verbatim>\<open>1 + x\<close>, \<^verbatim>\<open>1 / x\<close>) applies to each
  entry, by the float's rule or by the integer's. (A Python \<^verbatim>\<open>int\<close> passed alone is not
  modelled: it differs from an \<^verbatim>\<open>int64\<close> entry in that its negation cannot wrap.)
\<close>

datatype nd = Sc npfloat | ScInt "64 word" | Arr "nd list"


text \<open>\<^verbatim>\<open>np.array\<close> of a nested list of Python integers: an \<^verbatim>\<open>int64\<close> array.\<close>

definition np_array :: "int list list \<Rightarrow> nd" where
  "np_array rows = Arr (map (\<lambda>row. Arr (map (\<lambda>n. ScInt (word_of_int n)) row)) rows)"

section \<open>The numeric functions\<close>

text \<open>
  \<^verbatim>\<open>def generate_data(): bitpairs = np.array([[1,0],[0,1],[0,0],[1,1]]);\<close>
  \<^verbatim>\<open>xor_labels = np.array([[1],[1],[0],[0]]); return bitpairs, xor_labels\<close>

  The two tables are kept as the integer lists the source writes; \<open>np_array\<close> turns them
  into arrays where a function takes one.
\<close>

definition generate_data :: "int list list \<times> int list list" where
  "generate_data =
     (let bitpairs = [[1, 0], [0, 1], [0, 0], [1, 1]];
          xor_labels = [[1], [1], [0], [0]]
      in (bitpairs, xor_labels))"


text \<open>
  \<^verbatim>\<open>def binary_xentropy(target, p, deriv=False):\<close>
  \<^verbatim>\<open>    return -(target * np.log(p) + (1 - target) * np.log(1 - p))\<close>

  taken at two floats (the shape rules of numpy for two arrays are not modelled).
\<close>

definition binary_xentropy :: "npfloat \<Rightarrow> npfloat \<Rightarrow> bool \<Rightarrow> npfloat" where
  "binary_xentropy target p deriv =
     fneg (fadd (fmul target (flog p)) (fmul (fsub (Fin 1) target) (flog (fsub (Fin 1) p))))"

section \<open>Python values, errors and the program state\<close>

text \<open>
  Values other than numbers in flight: \<^verbatim>\<open>None\<close>, a Python number, a numpy array (a numpy
  scalar is the array \<open>Sc v\<close> or \<open>ScInt w\<close>), a list, a tuple, and the modules and
  functions the cells bind, which this program only ever names.
\<close>

datatype pyval =
    PyNone
  | PyNum npfloat
  | PyArray nd
  | PyList "pyval list"
  | PyTuple "pyval list"
  | PyObj string

datatype pyerror =
    NameError string
  | AssertionError
  | ZeroDivisionError
  | TypeError
  | IndexError

text \<open>
  What \<^verbatim>\<open>print\<close> writes, one entry per call. The digits of a formatted number are not
  rendered: a line keeps the values that were formatted.
\<close>

datatype line =
    Msg string
  | EpochLine int npfloat
  | PredLine pyval pyval npfloat
  | ShapesLine string "nat list list"

text \<open>
  The state a cell or a call can read or change: the global names, the parameter arrays
  (the arrays a caller passes in the lists \<^verbatim>\<open>weights\<close> and \<^verbatim>\<open>biases\<close> are mutable objects;
  they live in a store and are passed as their addresses), the state of numpy's random
  generator, and the text printed so far.
\<close>

record pystate =
  globals :: "string \<rightharpoonup> pyval"
  arrays :: "nat \<rightharpoonup> nd"
  rng :: nat
  stdout :: "line list"

text \<open>
  A name that a function neither takes as a parameter nor assigns is read from the global
  names; Python raises \<^verbatim>\<open>NameError\<close> when it is not bound.
\<close>

definition load_global :: "string \<Rightarrow> pystate \<Rightarrow> pyerror + pyval" where
  "load_global name s = (case globals s name of None \<Rightarrow> Inl (NameError name) | Some v \<Rightarrow> Inr v)"

definition print_line :: "line \<Rightarrow> pystate \<Rightarrow> pystate" where
  "print_line l s = s\<lparr>stdout := stdout s @ [l]\<rparr>"

text \<open>\<^verbatim>\<open>len(X)\<close> of a numeric value: the number of rows, and no length for a number.\<close>

fun py_len :: "nd \<Rightarrow> pyerror + int" where
  "py_len (Sc v) = Inl TypeError"
| "py_len (ScInt w) = Inl TypeError"
| "py_len (Arr rows) = Inr (int (length rows))"

text \<open>\<^verbatim>\<open>xs[i]\<close> on a sequence; a negative index counts from the end.\<close>

definition seq_index :: "'a list \<Rightarrow> int \<Rightarrow> pyerror + 'a" where
  "seq_index xs i =
     (if 0 \<le> i \<and> i < int (length xs) then Inr (xs ! nat i)
      else if i < 0 \<and> - int (length xs) \<le> i then Inr (xs ! nat (int (length xs) + i))
      else Inl IndexError)"

fun py_index :: "pyval \<Rightarrow> int \<Rightarrow> pyerror + pyval" where
  "py_index (PyList vs) i = seq_index vs i"
| "py_index (PyTuple vs) i = seq_index vs i"
| "py_index (PyArray (Arr rows)) i =
     (case seq_index rows i of Inl e \<Rightarrow> Inl e | Inr r \<Rightarrow> Inr (PyArray r))"
| "py_index (PyArray (Sc v)) i = Inl IndexError"
| "py_index (PyArray (ScInt w)) i = Inl IndexError"
| "py_index PyNone i = Inl TypeError"
| "py_index (PyNum v) i = Inl TypeError"
| "py_index (PyObj n) i = Inl TypeError"

text \<open>The items a \<^verbatim>\<open>for\<close> loop or \<^verbatim>\<open>zip\<close> draws from a value.\<close>

fun py_iter :: "pyval \<Rightarrow> pyerror + pyval list" where
  "py_iter (PyList vs) = Inr vs"
| "py_iter (PyTuple vs) = Inr vs"
| "py_iter (PyArray (Arr rows)) = Inr (map PyArray rows)"
| "py_iter (PyArray (Sc v)) = Inl TypeError"
| "py_iter (PyArray (ScInt w)) = Inl TypeError"
| "py_iter PyNone = Inl TypeError"
| "py_iter (PyNum v) = Inl TypeError"
| "py_iter (PyObj n) = Inl TypeError"

text \<open>A value under a format specification such as \<^verbatim>\<open>.06f\<close>: a number, or nothing.\<close>

fun format_f :: "pyval \<Rightarrow> pyerror + npfloat" where
  "format_f (PyNum v) = Inr v"
| "format_f (PyArray (Sc v)) = Inr v"
| "format_f (PyArray (ScInt w)) = Inr (float_of_int64 w)"
| "format_f (PyArray (Arr rows)) = Inl TypeError"
| "format_f PyNone = Inl TypeError"
| "format_f (PyList vs) = Inl TypeError"
| "format_f (PyTuple vs) = Inl TypeError"
| "format_f (PyObj n) = Inl TypeError"

text \<open>
  The state after the cells that define the program have run: the imports and the
  \<^verbatim>\<open>def\<close>s are the only bindings, the seed cell has set the generator, nothing is printed.
\<close>

definition notebook_globals :: "(string \<times> pyval) list" where
  "notebook_globals =
     [(''mplot3d'', PyObj ''module''), (''np'', PyObj ''module''), (''plt'', PyObj ''module''),
      (''generate_data'', PyObj ''function''), (''get_parameters'', PyObj ''function''),
      (''print_shapes'', PyObj ''function''), (''sigmoid'', PyObj ''function''),
      (''binary_xentropy'', PyObj ''function''), (''shuffle_and_batch'', PyObj ''function''),
      (''feedforward'', PyObj ''function''), (''backprop'', PyObj ''function''),
      (''SGD'', PyObj ''function''), (''train'', PyObj ''function''),
      (''predict'', PyObj ''function''), (''plot_loss'', PyObj ''function''),
      (''plot_activation_surface'', PyObj ''function'')]"

definition notebook_state :: pystate where
  "notebook_state =
     \<lparr>globals = map_of notebook_globals, arrays = Map.empty, rng = 43252, stdout = []\<rparr>"

section \<open>The functions of the training pipeline\<close>

text \<open>
  \<^verbatim>\<open>def print_shapes(ls, name): print(f"{name}: {[l.shape for l in ls]}")\<close>
\<close>

fun shape :: "nd \<Rightarrow> nat list" where
  "shape (Sc v) = []"
| "shape (ScInt w) = []"
| "shape (Arr []) = [0]"
| "shape (Arr (r # rs)) = Suc (length rs) # shape r"

definition print_shapes :: "nd list \<Rightarrow> string \<Rightarrow> pystate \<Rightarrow> (pyerror + pyval) \<times> pystate" where
  "print_shapes ls name s = (Inr PyNone, print_line (ShapesLine name (map shape ls)) s)"

text \<open>
  \<^verbatim>\<open>def get_parameters(): return w, b\<close>
\<close>

definition get_parameters :: "pystate \<Rightarrow> (pyerror + pyval \<times> pyval) \<times> pystate" where
  "get_parameters s =
     (case load_global ''w'' s of
        Inl e \<Rightarrow> (Inl e, s)
      | Inr w \<Rightarrow>
          (case load_global ''b'' s of
             Inl e \<Rightarrow> (Inl e, s)
           | Inr b \<Rightarrow> (Inr (w, b), s)))"

text \<open>
  \<^verbatim>\<open>def shuffle_and_batch(X, Y, batch_size):\<close>
  \<^verbatim>\<open>    assert batch_size <= len(X), print("Batch size must be smaller than the dataset size")\<close>

  The message of a failing assertion is evaluated: the text is printed and the error
  carries \<^verbatim>\<open>None\<close>. The body ends after the assertion, so the call returns \<^verbatim>\<open>None\<close>.
\<close>

definition shuffle_and_batch :: "nd \<Rightarrow> nd \<Rightarrow> int \<Rightarrow> pystate \<Rightarrow> (pyerror + pyval) \<times> pystate" where
  "shuffle_and_batch X Y batch_size s =
     (case py_len X of
        Inl e \<Rightarrow> (Inl e, s)
      | Inr n \<Rightarrow>
          if batch_size \<le> n then (Inr PyNone, s)
          else (Inl AssertionError,
                print_line (Msg ''Batch size must be smaller than the dataset size'') s))"

text \<open>
  \<^verbatim>\<open>def feedforward(x, weights, biases): return zs, activations, d_activations\<close>
\<close>

definition feedforward ::
  "nd \<Rightarrow> nat list \<Rightarrow> nat list \<Rightarrow> pystate \<Rightarrow> (pyerror + pyval \<times> pyval \<times> pyval) \<times> pystate" where
  "feedforward x weights biases s =
     (case load_global ''zs'' s of
        Inl e \<Rightarrow> (Inl e, s)
      | Inr zs \<Rightarrow>
          (case load_global ''activations'' s of
             Inl e \<Rightarrow> (Inl e, s)
           | Inr activations \<Rightarrow>
               (case load_global ''d_activations'' s of
                  Inl e \<Rightarrow> (Inl e, s)
                | Inr d_activations \<Rightarrow> (Inr (zs, activations, d_activations), s))))"

text \<open>
  \<^verbatim>\<open>def backprop(x, y, weights, biases): return gradw, gradb\<close>
\<close>

definition backprop ::
  "nd \<Rightarrow> nd \<Rightarrow> nat list \<Rightarrow> nat list \<Rightarrow> pystate \<Rightarrow> (pyerror + pyval \<times> pyval) \<times> pystate" where
  "backprop x y weights biases s =
     (case load_global ''gradw'' s of
        Inl e \<Rightarrow> (Inl e, s)
      | Inr gradw \<Rightarrow>
          (case load_global ''gradb'' s of
             Inl e \<Rightarrow> (Inl e, s)
           | Inr gradb \<Rightarrow> (Inr (gradw, gradb), s)))"

text \<open>
  \<^verbatim>\<open>def SGD(X, Y, batch_size, lr, weights, biases):\<close> has a docstring and no statement.
\<close>

definition SGD ::
  "nd \<Rightarrow> nd \<Rightarrow> int \<Rightarrow> npfloat \<Rightarrow> nat list \<Rightarrow> nat list \<Rightarrow> pystate \<Rightarrow> (pyerror + pyval) \<times> pystate" where
  "SGD X Y batch_size lr weights biases s = (Inr PyNone, s)"

text \<open>
  \<^verbatim>\<open>def train(dataset, weights, biases, epochs=100, lr=1e-3, batch_size=4):\<close>
  \<^verbatim>\<open>    losses = []\<close>
  \<^verbatim>\<open>    for epoch in range(epochs):\<close>
  \<^verbatim>\<open>        if epoch % (epochs // 10) == 0:\<close>
  \<^verbatim>\<open>            print(f"Running epoch {epoch:06d} - loss: {epoch_loss:.06f}")\<close>
  \<^verbatim>\<open>    return losses\<close>

  The loop runs over the epochs still to come; \<^verbatim>\<open>%\<close> by zero raises.
\<close>

fun train_loop :: "int \<Rightarrow> int list \<Rightarrow> pyval list \<Rightarrow> pystate \<Rightarrow> (pyerror + pyval list) \<times> pystate" where
  "train_loop epochs [] losses s = (Inr losses, s)"
| "train_loop epochs (epoch # rest) losses s =
     (if epochs div 10 = 0 then (Inl ZeroDivisionError, s)
      else if epoch mod (epochs div 10) = 0 then
        (case load_global ''epoch_loss'' s of
           Inl e \<Rightarrow> (Inl e, s)
         | Inr epoch_loss \<Rightarrow>
             (case format_f epoch_loss of
                Inl e \<Rightarrow> (Inl e, s)
              | Inr v \<Rightarrow> train_loop epochs rest losses (print_line (EpochLine epoch v) s)))
      else train_loop epochs rest losses s)"

definition train ::
  "nd \<times> nd \<Rightarrow> nat list \<Rightarrow> nat list \<Rightarrow> int \<Rightarrow> npfloat \<Rightarrow> int \<Rightarrow> pystate
     \<Rightarrow> (pyerror + pyval list) \<times> pystate" where
  "train dataset weights biases epochs lr batch_size s =
     (let losses = [] in train_loop epochs [0..epochs - 1] losses s)"

text \<open>
  \<^verbatim>\<open>def predict(dataset, weights, biases):\<close>
  \<^verbatim>\<open>    X, _ = dataset\<close>
  \<^verbatim>\<open>    _, activations, _ = feedforward(X, weights, biases)\<close>
  \<^verbatim>\<open>    print("Truth table predictions"); print("_______________________")\<close>
  \<^verbatim>\<open>    for x, pred in zip(X, activations[-1]):\<close>
  \<^verbatim>\<open>        print(f"{x[0]} {x[1]} | {pred[0]:.14f}")\<close>
\<close>

fun predict_loop :: "(pyval \<times> pyval) list \<Rightarrow> pystate \<Rightarrow> (pyerror + pyval) \<times> pystate" where
  "predict_loop [] s = (Inr PyNone, s)"
| "predict_loop ((x, pred) # rest) s =
     (case py_index x 0 of
        Inl e \<Rightarrow> (Inl e, s)
      | Inr x0 \<Rightarrow>
          (case py_index x 1 of
             Inl e \<Rightarrow> (Inl e, s)
           | Inr x1 \<Rightarrow>
               (case py_index pred 0 of
                  Inl e \<Rightarrow> (Inl e, s)
                | Inr p0 \<Rightarrow>
                    (case format_f p0 of
                       Inl e \<Rightarrow> (Inl e, s)
                     | Inr v \<Rightarrow> predict_loop rest (print_line (PredLine x0 x1 v) s)))))"

definition predict ::
  "nd \<times> nd \<Rightarrow> nat list \<Rightarrow> nat list \<Rightarrow> pystate \<Rightarrow> (pyerror + pyval) \<times> pystate" where
  "predict dataset weights biases s =
     (let X = fst dataset in
      case feedforward X weights biases s of
        (Inl e, s1) \<Rightarrow> (Inl e, s1)
      | (Inr (zs, activations, d_activations), s1) \<Rightarrow>
          (let s2 = print_line (Msg ''Truth table predictions'') s1;
               s3 = print_line (Msg ''_______________________'') s2
           in case py_index activations (- 1) of
                Inl e \<Rightarrow> (Inl e, s3)
              | Inr last_activation \<Rightarrow>
                  (case py_iter (PyArray X) of
                     Inl e \<Rightarrow> (Inl e, s3)
                   | Inr xs \<Rightarrow>
                       (case py_iter last_activation of
                          Inl e \<Rightarrow> (Inl e, s3)
                        | Inr preds \<Rightarrow> predict_loop (zip xs preds) s3))))"

section \<open>The reference the specification describes\<close>

text \<open>
  The specification describes backpropagation over a sigmoid network with binary
  cross-entropy loss and a gradient-descent update. The definitions of this section follow
  the specification's words, not the source: they state what the claims about \<open>backprop\<close>
  and \<open>SGD\<close> compare the code with. A matrix is a list of rows over the reals, a layer is
  a weight matrix with its bias vector.
\<close>

type_synonym matrix = "real list list"

definition mat_mul :: "matrix \<Rightarrow> matrix \<Rightarrow> matrix" where
  "mat_mul A B = map (\<lambda>row. map (\<lambda>col. sum_list (map2 (*) row col)) (transpose B)) A"

definition hadamard :: "matrix \<Rightarrow> matrix \<Rightarrow> matrix" where
  "hadamard A B = map2 (map2 (*)) A B"

definition add_bias :: "matrix \<Rightarrow> real list \<Rightarrow> matrix" where
  "add_bias Z b = map (\<lambda>row. map2 (+) row b) Z"

definition logistic :: "real \<Rightarrow> real" where
  "logistic z = 1 / (1 + exp (- z))"

definition logistic_deriv :: "real \<Rightarrow> real" where
  "logistic_deriv z = logistic z * (1 - logistic z)"

text \<open>The derivative of \<open>- (y * ln a + (1 - y) * ln (1 - a))\<close> in \<open>a\<close>.\<close>

definition bce_gradient :: "real \<Rightarrow> real \<Rightarrow> real" where
  "bce_gradient y a = - (y / a - (1 - y) / (1 - a))"

text \<open>
  One pass over the layers from the input \<open>a\<close>: forward through the layer, recursion on
  the layers above, then the layer's error from the error handed down. After the last
  layer the error handed down is the gradient of the loss. The result is the error to hand
  to the layer below, times the transposed weights, and the gradients
  \<open>(gradw, gradb)\<close> of each layer in order.
\<close>

fun reference_backprop ::
  "matrix \<Rightarrow> matrix \<Rightarrow> (matrix \<times> real list) list \<Rightarrow> matrix \<times> (matrix \<times> matrix) list" where
  "reference_backprop a y [] = (map2 (map2 bce_gradient) y a, [])"
| "reference_backprop a y ((W, b) # layers) =
     (let z = add_bias (mat_mul a W) b;
          (back, grads) = reference_backprop (map (map logistic) z) y layers;
          delta = hadamard back (map (map logistic_deriv) z)
      in (mat_mul delta (transpose W), (mat_mul (transpose a) delta, delta) # grads))"

definition nd_of_matrix :: "matrix \<Rightarrow> nd" where
  "nd_of_matrix m = Arr (map (\<lambda>row. Arr (map (\<lambda>v. Sc (Fin v)) row)) m)"

text \<open>The pair \<open>(gradw, gradb)\<close> of per-layer lists the specification expects of \<open>backprop\<close>.\<close>

definition reference_gradients ::
  "matrix \<Rightarrow> matrix \<Rightarrow> (matrix \<times> real list) list \<Rightarrow> pyval \<times> pyval" where
  "reference_gradients x y layers =
     (let grads = snd (reference_backprop x y layers)
      in (PyList (map (\<lambda>g. PyArray (nd_of_matrix (fst g))) grads),
          PyList (map (\<lambda>g. PyArray (nd_of_matrix (snd g))) grads)))"

text \<open>The weights the specification expects after one step: \<open>W - lr * gradw\<close>, per layer.\<close>

definition reference_sgd_weights :: "real \<Rightarrow> matrix list \<Rightarrow> matrix list \<Rightarrow> matrix list" where
  "reference_sgd_weights lr Ws gradWs = map2 (map2 (map2 (\<lambda>w g. w - lr * g))) Ws gradWs"

section \<open>Concrete inputs\<close>

text \<open>A cell \<^verbatim>\<open>name = v\<close> run at top level binds a global name.\<close>

definition assign_global :: "string \<Rightarrow> pyval \<Rightarrow> pystate \<Rightarrow> pystate" where
  "assign_global name v s = s\<lparr>globals := (globals s)(name \<mapsto> v)\<rparr>"

text \<open>The default learning rate of \<open>train\<close>, the float literal \<^verbatim>\<open>1e-3\<close>.\<close>

definition default_lr :: npfloat where
  "default_lr = round64 (1 / 1000)"

text \<open>The dataset as \<^verbatim>\<open>generate_data()\<close> returns it, as a pair of arrays.\<close>

definition xor_dataset :: "nd \<times> nd" where
  "xor_dataset = (np_array (fst generate_data), np_array (snd generate_data))"

text \<open>
  A two-layer network (two inputs, two hidden units, one output) with every weight and
  bias zero, its four arrays stored at the addresses 0 to 3 of the notebook's state.
\<close>

definition zero_layers :: "(matrix \<times> real list) list" where
  "zero_layers = [([[0, 0], [0, 0]], [0, 0]), ([[0], [0]], [0])]"

definition zero_network :: pystate where
  "zero_network =
     notebook_state\<lparr>arrays :=
       [0 \<mapsto> nd_of_matrix [[0, 0], [0, 0]], 1 \<mapsto> nd_of_matrix [[0], [0]],
        2 \<mapsto> nd_of_matrix [[0, 0]], 3 \<mapsto> nd_of_matrix [[0]]]\<rparr>"

section \<open>Facts about rounding\<close>

lemma round_even_floor: "\<lfloor>q\<rfloor> \<le> round_even q \<and> round_even q \<le> \<lfloor>q\<rfloor> + 1"
  by (simp add: round_even_def Let_def)

lemma round_even_ge: "of_int n \<le> q \<Longrightarrow> n \<le> round_even q"
proof -
  assume "of_int n \<le> q"
  then have "n \<le> \<lfloor>q\<rfloor>" by (simp add: le_floor_iff)
  then show ?thesis using round_even_floor [of q] by linarith
qed

lemma round_even_le: "q \<le> of_int n \<Longrightarrow> round_even q \<le> n"
proof (cases "q = of_int n")
  case True
  then show ?thesis by (simp add: round_even_def)
next
  case False
  assume "q \<le> of_int n"
  with False have "q < of_int n" by simp
  then have "\<lfloor>q\<rfloor> < n" by (simp add: floor_less_iff)
  then show ?thesis using round_even_floor [of q] by linarith
qed


lemma floor_log2_bounds:
  assumes "0 < x"
  shows "2 powr of_int \<lfloor>log 2 x\<rfloor> \<le> x \<and> x < 2 powr of_int (\<lfloor>log 2 x\<rfloor> + 1)"
  using floor_log_eq_powr_iff [of x 2 "\<lfloor>log 2 x\<rfloor>"] assms by simp


lemma rounded_le_pow2:
  assumes "0 \<le> x" and "x \<le> 2 powr of_int k" and "- 1074 \<le> k"
  shows "rounded x \<le> 2 powr of_int k"
proof (cases "x = 0")
  case True
  then show ?thesis by (simp add: rounded_def round_even_def)
next
  case False
  then have pos: "0 < x" using assms(1) by simp
  define e where "e = \<lfloor>log 2 x\<rfloor>"
  have "2 powr of_int e \<le> x" using floor_log2_bounds [OF pos] by (simp add: e_def)
  then have "2 powr of_int e \<le> (2::real) powr of_int k" using assms(2) by linarith
  then have "e \<le> k" by simp
  then have ue: "ulp_exponent x \<le> k"
    using assms(3) pos by (simp add: ulp_exponent_def e_def)
  define n where "n = nat (k - ulp_exponent x)"
  have split: "(2::real) powr of_int k = 2 ^ n * 2 powr of_int (ulp_exponent x)"
  proof -
    have "of_int k = real n + of_int (ulp_exponent x)" using ue by (simp add: n_def)
    then show ?thesis by (simp add: powr_add powr_realpow)
  qed
  have "x / 2 powr of_int (ulp_exponent x) \<le> 2 ^ n"
    using assms(2) by (simp add: split field_simps)
  then have "x / 2 powr of_int (ulp_exponent x) \<le> of_int (2 ^ n)" by simp
  then have "round_even (x / 2 powr of_int (ulp_exponent x)) \<le> 2 ^ n" by (rule round_even_le)
  then have "of_int (round_even (x / 2 powr of_int (ulp_exponent x))) \<le> (2::real) ^ n"
    by (metis of_int_le_iff of_int_numeral of_int_power)
  then show ?thesis
    by (simp add: rounded_def Let_def split mult_right_mono)
qed

lemma rounded_ge_pow2:
  assumes "2 powr of_int k \<le> x" and "- 1022 \<le> k"
  shows "2 powr of_int k \<le> rounded x"
proof -
  have pos: "0 < x" using assms(1) by (smt (verit) powr_gt_zero)
  define e where "e = \<lfloor>log 2 x\<rfloor>"
  have e: "2 powr of_int e \<le> x" "x < 2 powr of_int (e + 1)"
    using floor_log2_bounds [OF pos] by (simp_all add: e_def)
  have "(2::real) powr of_int k < 2 powr of_int (e + 1)" using assms(1) e(2) by linarith
  then have ke: "k \<le> e" by simp
  then have ue: "ulp_exponent x = e - 52"
    using assms(2) pos by (simp add: ulp_exponent_def e_def)
  have split: "(2::real) powr of_int e = 2 ^ 52 * 2 powr of_int (e - 52)"
  proof -
    have "of_int e = real 52 + of_int (e - 52)" by simp
    then show ?thesis by (metis powr_add powr_realpow zero_less_numeral)
  qed
  have "2 ^ 52 \<le> x / 2 powr of_int (e - 52)"
    using e(1) by (simp add: split field_simps)
  then have "of_int (2 ^ 52) \<le> x / 2 powr of_int (e - 52)" by simp
  then have "2 ^ 52 \<le> round_even (x / 2 powr of_int (e - 52))" by (rule round_even_ge)
  then have "(2::real) ^ 52 \<le> of_int (round_even (x / 2 powr of_int (e - 52)))"
    by (metis of_int_le_iff of_int_numeral of_int_power)
  then have "2 powr of_int e \<le> rounded x"
    by (simp add: rounded_def Let_def ue split mult_right_mono)
  moreover have "(2::real) powr of_int k \<le> 2 powr of_int e" using ke by simp
  ultimately show ?thesis by linarith
qed

lemma rounded_zero: "rounded 0 = 0"
  by (simp add: rounded_def round_even_def)



lemma round64_zero: "round64 0 = Fin 0"
  by (simp add: round64_def rounded_zero overflow_threshold_def)

lemma rounded_one: "rounded 1 = 1"
proof -
  have "rounded 1 \<le> 2 powr of_int 0" by (rule rounded_le_pow2) simp_all
  moreover have "2 powr of_int 0 \<le> rounded 1" by (rule rounded_ge_pow2) simp_all
  ultimately show ?thesis by simp
qed

lemma round64_one: "round64 1 = Fin 1"
  by (simp add: round64_def rounded_one overflow_threshold_def)




























section \<open>Facts about the logistic function\<close>


section \<open>Facts about the pipeline\<close>

lemma load_global_unbound: "globals s name = None \<Longrightarrow> load_global name s = Inl (NameError name)"
  by (simp add: load_global_def)

lemma load_global_not_assertion: "load_global name s \<noteq> Inl AssertionError"
  by (simp add: load_global_def split: option.splits)

lemma format_f_not_assertion: "format_f v \<noteq> Inl AssertionError"
proof (cases v)
  case (PyArray a)
  then show ?thesis by (cases a) simp_all
qed simp_all

lemma seq_index_not_assertion: "seq_index xs i \<noteq> Inl AssertionError"
  by (simp add: seq_index_def)

lemma py_index_not_assertion: "py_index v i \<noteq> Inl AssertionError"
proof (cases v)
  case (PyArray a)
  show ?thesis
  proof (cases a)
    case (Sc x)
    then show ?thesis using PyArray by simp
  next
    case (ScInt w)
    then show ?thesis using PyArray by simp
  next
    case (Arr rows)
    have "seq_index rows i \<noteq> Inl AssertionError"
      by (rule seq_index_not_assertion)
    then show ?thesis
      using PyArray Arr by (cases "seq_index rows i") auto
  qed
qed (simp_all add: seq_index_not_assertion)

lemma py_iter_not_assertion: "py_iter v \<noteq> Inl AssertionError"
proof (cases v)
  case (PyArray a)
  then show ?thesis by (cases a) simp_all
qed simp_all

lemma notebook_unbound:
  "globals notebook_state ''w'' = None"
  "globals notebook_state ''b'' = None"
  "globals notebook_state ''zs'' = None"
  "globals notebook_state ''activations'' = None"
  "globals notebook_state ''d_activations'' = None"
  "globals notebook_state ''gradw'' = None"
  "globals notebook_state ''gradb'' = None"
  "globals notebook_state ''epoch_loss'' = None"
  by (simp_all add: notebook_state_def notebook_globals_def)

lemma zero_network_globals: "globals zero_network = globals notebook_state"
  by (simp add: zero_network_def)

text \<open>The training loop: the errors it can raise, and what it leaves alone.\<close>

lemma train_loop_not_assertion:
  "fst (train_loop epochs es losses s) \<noteq> Inl AssertionError"
proof (induction es arbitrary: s)
  case Nil
  then show ?case by simp
next
  case (Cons epoch rest)
  then show ?case
    using load_global_not_assertion [of "''epoch_loss''" s] format_f_not_assertion
    by (auto split: sum.splits)
qed

lemma train_loop_frame:
  "globals (snd (train_loop epochs es losses s)) = globals s
   \<and> arrays (snd (train_loop epochs es losses s)) = arrays s
   \<and> rng (snd (train_loop epochs es losses s)) = rng s"
proof (induction es arbitrary: s)
  case Nil
  then show ?case by simp
next
  case (Cons epoch rest)
  have step: "globals (print_line l s) = globals s \<and> arrays (print_line l s) = arrays s
      \<and> rng (print_line l s) = rng s" for l
    by (simp add: print_line_def)
  show ?case
    using Cons.IH step by (auto split: sum.splits)
qed

lemma train_no_epochs:
  "epochs \<le> 0 \<Longrightarrow> train dataset weights biases epochs lr batch_size s = (Inr [], s)"
  by (simp add: train_def)

lemma train_unbound_loss:
  assumes "10 \<le> epochs" and "globals s ''epoch_loss'' = None"
  shows "train dataset weights biases epochs lr batch_size s = (Inl (NameError ''epoch_loss''), s)"
proof -
  have range: "[0..epochs - 1] = 0 # [1..epochs - 1]"
    using assms(1) by (simp add: upto_rec1)
  have "epochs div 10 \<noteq> 0"
    using assms(1) by (simp add: zdiv_eq_0_iff)
  then show ?thesis
    using assms(2) by (simp add: train_def range load_global_unbound)
qed

lemma train_frame:
  "globals (snd (train dataset weights biases epochs lr batch_size s)) = globals s
   \<and> arrays (snd (train dataset weights biases epochs lr batch_size s)) = arrays s
   \<and> rng (snd (train dataset weights biases epochs lr batch_size s)) = rng s"
  unfolding train_def Let_def by (rule train_loop_frame)

lemma train_not_assertion:
  "fst (train dataset weights biases epochs lr batch_size s) \<noteq> Inl AssertionError"
  unfolding train_def Let_def by (rule train_loop_not_assertion)

text \<open>The stubs that only read global names.\<close>

lemma get_parameters_not_assertion: "fst (get_parameters s) \<noteq> Inl AssertionError"
  using load_global_not_assertion [of _ s]
  by (auto simp: get_parameters_def split: sum.splits)

lemma feedforward_unbound:
  "globals s ''zs'' = None \<Longrightarrow> feedforward x weights biases s = (Inl (NameError ''zs''), s)"
  by (simp add: feedforward_def load_global_unbound)

lemma feedforward_not_assertion: "fst (feedforward x weights biases s) \<noteq> Inl AssertionError"
  using load_global_not_assertion [of _ s]
  by (auto simp: feedforward_def split: sum.splits)

lemma backprop_not_assertion: "fst (backprop x y weights biases s) \<noteq> Inl AssertionError"
  using load_global_not_assertion [of _ s]
  by (auto simp: backprop_def split: sum.splits)

lemma predict_loop_not_assertion: "fst (predict_loop ps s) \<noteq> Inl AssertionError"
proof (induction ps arbitrary: s)
  case Nil
  then show ?case by simp
next
  case (Cons p rest)
  obtain x pred where p: "p = (x, pred)" by (cases p)
  show ?case
    using Cons.IH py_index_not_assertion format_f_not_assertion
    by (auto simp: p split: sum.splits)
qed

lemma predict_not_assertion: "fst (predict dataset weights biases s) \<noteq> Inl AssertionError"
proof (cases "feedforward (fst dataset) weights biases s")
  case (Pair r s1)
  show ?thesis
  proof (cases r)
    case (Inl e)
    then have "e \<noteq> AssertionError"
      using feedforward_not_assertion [of "fst dataset" weights biases s] Pair by auto
    then show ?thesis
      using Pair Inl by (simp add: predict_def)
  next
    case (Inr t)
    obtain zs activations d_activations where t: "t = (zs, activations, d_activations)"
      by (cases t)
    show ?thesis
      using Pair Inr t py_index_not_assertion py_iter_not_assertion predict_loop_not_assertion
      by (auto simp: predict_def Let_def split: sum.splits)
  qed
qed

lemma predict_unbound:
  "globals s ''zs'' = None \<Longrightarrow> predict dataset weights biases s = (Inl (NameError ''zs''), s)"
  by (simp add: predict_def feedforward_unbound)

text \<open>The reference on the zero network, for one sample.\<close>

lemma reference_zero_network:
  "snd (reference_backprop [[1, 0]] [[1]] zero_layers)
     = [([[0, 0], [0, 0]], [[0, 0]]), ([[- (1 / 4)], [- (1 / 4)]], [[- (1 / 2)]])]"
  by (simp add: zero_layers_def Let_def mat_mul_def hadamard_def add_bias_def logistic_def
      logistic_deriv_def bce_gradient_def)

section \<open>The claims\<close>

text \<open>
  C1. The specification has \<open>backprop\<close> return the gradients of the four
  backpropagation equations, and its docstring reads "Obtain gradients through
  backprop". The body is only \<^verbatim>\<open>return gradw, gradb\<close>, and no cell binds either name: on
  the XOR batch and the zero network the call raises \<open>NameError\<close> for \<^verbatim>\<open>gradw\<close>, which is
  not the pair of gradients of the reference.
\<close>

theorem backprop_raises_NameError:
  "fst (backprop (fst xor_dataset) (snd xor_dataset) [0, 1] [2, 3] zero_network)
     = Inl (NameError ''gradw'')
   \<and> fst (backprop (fst xor_dataset) (snd xor_dataset) [0, 1] [2, 3] zero_network)
     \<noteq> Inr (reference_gradients [[1, 0], [0, 1], [0, 0], [1, 1]] [[1], [1], [0], [0]] zero_layers)"
  by (simp add: backprop_def load_global_unbound zero_network_globals notebook_unbound)

text \<open>
  C2. \<open>generate_data\<close> returns the constant table: the bit pairs [1,0], [0,1], [0,0], [1,1]
  with the labels [1], [1], [0], [0]; the label of every row is the exclusive or of its
  two bits; the function has no argument and reads no state, so every call returns this
  table.
\<close>

theorem generate_data_xor_table:
  "generate_data = ([[1, 0], [0, 1], [0, 0], [1, 1]], [[1], [1], [0], [0]])
   \<and> snd generate_data = map (\<lambda>row. [of_bool (row ! 0 \<noteq> row ! 1)]) (fst generate_data)
   \<and> length (fst generate_data) = 4"
  by (simp add: generate_data_def)

text \<open>
  C3. \<open>shuffle_and_batch\<close> raises \<open>AssertionError\<close> exactly when \<open>batch_size\<close> exceeds
  the number of rows of \<open>X\<close>; when \<open>batch_size\<close> is at most that number it raises nothing,
  returns \<^verbatim>\<open>None\<close> and leaves the state as it was; and no other function of the pipeline
  (\<open>get_parameters\<close>, \<open>print_shapes\<close>, \<open>feedforward\<close>, \<open>backprop\<close>, \<open>SGD\<close>, \<open>train\<close>,
  \<open>predict\<close>) ever raises \<open>AssertionError\<close>, the only error the program raises by a
  statement of its own.
\<close>

theorem shuffle_and_batch_assertion:
  "(fst (shuffle_and_batch (Arr rows) Y batch_size s) = Inl AssertionError)
     = (int (length rows) < batch_size)
   \<and> (batch_size \<le> int (length rows)
        \<longrightarrow> shuffle_and_batch (Arr rows) Y batch_size s = (Inr PyNone, s))
   \<and> fst (get_parameters s) \<noteq> Inl AssertionError
   \<and> fst (print_shapes ls name s) \<noteq> Inl AssertionError
   \<and> fst (feedforward x weights biases s) \<noteq> Inl AssertionError
   \<and> fst (backprop x y weights biases s) \<noteq> Inl AssertionError
   \<and> fst (SGD X Y batch_size lr weights biases s) \<noteq> Inl AssertionError
   \<and> fst (train dataset weights biases epochs lr batch_size' s) \<noteq> Inl AssertionError
   \<and> fst (predict dataset weights biases s) \<noteq> Inl AssertionError"
proof -
  have raised: "(fst (shuffle_and_batch (Arr rows) Y batch_size s) = Inl AssertionError)
      = (int (length rows) < batch_size)"
    by (simp add: shuffle_and_batch_def)
  have passed: "batch_size \<le> int (length rows)
      \<longrightarrow> shuffle_and_batch (Arr rows) Y batch_size s = (Inr PyNone, s)"
    by (simp add: shuffle_and_batch_def)
  have sgd: "fst (SGD X Y batch_size lr weights biases s) \<noteq> Inl AssertionError"
    by (simp add: SGD_def)
  have shapes: "fst (print_shapes ls name s) \<noteq> Inl AssertionError"
    by (simp add: print_shapes_def)
  show ?thesis
    by (intro conjI)
      (fact raised, fact passed, rule get_parameters_not_assertion, fact shapes,
        rule feedforward_not_assertion, rule backprop_not_assertion, fact sgd,
        rule train_not_assertion, rule predict_not_assertion)
qed

theorem shuffle_and_batch_assertion_witness:
  "(4::int) \<le> int (length (fst generate_data))
   \<and> shuffle_and_batch (np_array (fst generate_data)) (np_array (snd generate_data)) 4 notebook_state
       = (Inr PyNone, notebook_state)
   \<and> fst (shuffle_and_batch (np_array (fst generate_data)) (np_array (snd generate_data)) 5
            notebook_state) = Inl AssertionError"
  using shuffle_and_batch_assertion
    [where rows = "map (\<lambda>row. Arr (map (\<lambda>n. ScInt (word_of_int n)) row)) (fst generate_data)"
       and Y = "np_array (snd generate_data)" and batch_size = 4 and s = notebook_state]
  by (simp add: np_array_def generate_data_def shuffle_and_batch_def)

text \<open>
  C4. The specification has \<open>train\<close> return one loss per epoch, decreasing, and its
  docstring reads "Trains the XOR neural network with SGD". The loop body holds two
  comments and a \<^verbatim>\<open>print\<close> of \<^verbatim>\<open>epoch_loss\<close>, a name nothing assigns, and nothing is
  appended to \<^verbatim>\<open>losses\<close>: with the default arguments on the XOR dataset the call raises
  \<open>NameError\<close> at the first epoch and returns no list, and where the name is bound, so
  that ten epochs run to the end, the list returned is empty.
\<close>

theorem train_returns_no_losses:
  "fst (train xor_dataset [0, 1] [2, 3] 100 default_lr 4 zero_network)
     = Inl (NameError ''epoch_loss'')
   \<and> fst (train xor_dataset [0, 1] [2, 3] 10 default_lr 4
            (assign_global ''epoch_loss'' (PyNum (Fin 1)) zero_network)) = Inr []"
proof -
  have "fst (train xor_dataset [0, 1] [2, 3] 100 default_lr 4 zero_network)
      = Inl (NameError ''epoch_loss'')"
    by (simp add: train_unbound_loss zero_network_globals notebook_unbound)
  moreover have "fst (train xor_dataset [0, 1] [2, 3] 10 default_lr 4
      (assign_global ''epoch_loss'' (PyNum (Fin 1)) zero_network)) = Inr []"
    by (simp add: train_def upto.simps load_global_def assign_global_def print_line_def)
  ultimately show ?thesis by simp
qed

text \<open>
  C5. The specification has \<open>predict\<close> show final-layer activations close to the XOR
  truth table, and the docstrings read "Perform feed forward operation" and "Make
  predictions on the dataset with the trained network". The body of \<open>feedforward\<close> is
  only \<^verbatim>\<open>return zs, activations, d_activations\<close>, and no cell binds these names: in the
  state \<open>train\<close> leaves (with no epoch to run, with the default hundred, or after ten
  epochs run to the end with \<^verbatim>\<open>epoch_loss\<close> bound) \<open>feedforward\<close> on the four bit pairs
  raises \<open>NameError\<close> for \<^verbatim>\<open>zs\<close>, and so does \<open>predict\<close>: there is no prediction.
\<close>

theorem predict_raises_NameError:
  "train xor_dataset [0, 1] [2, 3] 0 default_lr 4 zero_network = (Inr [], zero_network)
   \<and> snd (train xor_dataset [0, 1] [2, 3] 100 default_lr 4 zero_network) = zero_network
   \<and> fst (feedforward (fst xor_dataset) [0, 1] [2, 3] zero_network) = Inl (NameError ''zs'')
   \<and> fst (predict xor_dataset [0, 1] [2, 3] zero_network) = Inl (NameError ''zs'')
   \<and> fst (train xor_dataset [0, 1] [2, 3] 10 default_lr 4
            (assign_global ''epoch_loss'' (PyNum (Fin 1)) zero_network)) = Inr []
   \<and> fst (predict xor_dataset [0, 1] [2, 3]
            (snd (train xor_dataset [0, 1] [2, 3] 10 default_lr 4
                    (assign_global ''epoch_loss'' (PyNum (Fin 1)) zero_network))))
       = Inl (NameError ''zs'')"
proof -
  have ran: "fst (train xor_dataset [0, 1] [2, 3] 10 default_lr 4
      (assign_global ''epoch_loss'' (PyNum (Fin 1)) zero_network)) = Inr []"
    by (simp add: train_def upto.simps load_global_def assign_global_def print_line_def)
  have "globals (snd (train xor_dataset [0, 1] [2, 3] 10 default_lr 4
      (assign_global ''epoch_loss'' (PyNum (Fin 1)) zero_network))) ''zs'' = None"
    by (simp add: train_frame assign_global_def zero_network_globals notebook_unbound)
  then have "fst (predict xor_dataset [0, 1] [2, 3]
      (snd (train xor_dataset [0, 1] [2, 3] 10 default_lr 4
              (assign_global ''epoch_loss'' (PyNum (Fin 1)) zero_network))))
      = Inl (NameError ''zs'')"
    by (simp add: predict_unbound)
  then show ?thesis
    using ran
    by (simp add: train_no_epochs train_unbound_loss feedforward_unbound predict_unbound
        zero_network_globals notebook_unbound)
qed

text \<open>
  C6. The specification has \<open>get_parameters\<close> return weights and biases sampled from
  the normal distribution, as its docstring says. The body is only \<^verbatim>\<open>return w, b\<close>, and no
  cell binds either name: in the notebook's state the call raises \<open>NameError\<close> for \<^verbatim>\<open>w\<close>
  and leaves the state, the random generator included, as it was.
\<close>

theorem get_parameters_raises_NameError:
  "get_parameters notebook_state = (Inl (NameError ''w''), notebook_state)"
  by (simp add: get_parameters_def load_global_unbound notebook_unbound)

text \<open>
  C7. The specification has every step update \<open>W := W - lr * gradw\<close> in place, and the
  docstring of \<open>SGD\<close> reads "Performs stochastic gradient descent over mini batches".
  The body is empty: on the zero network, for the sample \<open>[1, 0]\<close> with label \<open>1\<close> and
  the default rate \<open>1 / 1000\<close>, the update would set both output weights to \<open>1 / 4000\<close>, and \<open>SGD\<close>
  leaves the array at address 1 as it was, all zero.
\<close>

theorem SGD_leaves_parameters:
  "arrays (snd (SGD (nd_of_matrix [[1, 0]]) (nd_of_matrix [[1]]) 1 default_lr [0, 1] [2, 3]
                  zero_network)) 1
     = Some (nd_of_matrix [[0], [0]])
   \<and> reference_sgd_weights (1 / 1000) (map fst zero_layers)
         (map fst (snd (reference_backprop [[1, 0]] [[1]] zero_layers))) ! 1
     = [[1 / 4000], [1 / 4000]]
   \<and> arrays (snd (SGD (nd_of_matrix [[1, 0]]) (nd_of_matrix [[1]]) 1 default_lr [0, 1] [2, 3]
                    zero_network)) 1
     \<noteq> Some (nd_of_matrix (reference_sgd_weights (1 / 1000) (map fst zero_layers)
           (map fst (snd (reference_backprop [[1, 0]] [[1]] zero_layers))) ! 1))"
proof -
  have kept: "arrays (snd (SGD (nd_of_matrix [[1, 0]]) (nd_of_matrix [[1]]) 1 default_lr
      [0, 1] [2, 3] zero_network)) 1 = Some (nd_of_matrix [[0], [0]])"
    by (simp add: SGD_def zero_network_def)
  have expected: "reference_sgd_weights (1 / 1000) (map fst zero_layers)
      (map fst (snd (reference_backprop [[1, 0]] [[1]] zero_layers))) ! 1
      = [[1 / 4000], [1 / 4000]]"
    by (simp add: reference_zero_network) (simp add: zero_layers_def reference_sgd_weights_def)
  have "nd_of_matrix [[0], [0]] \<noteq> nd_of_matrix [[1 / 4000], [1 / 4000]]"
    by (simp add: nd_of_matrix_def)
  then show ?thesis
    using kept expected by simp
qed



text \<open>
  C9. \<open>binary_xentropy\<close> takes the logarithm of \<open>p\<close> and of \<open>1 - p\<close> unguarded: at
  target 1 with p = 0, and at target 0 with p = 1, the logarithm of zero is taken and the
  result is plus infinity, not a finite number, whatever \<open>deriv\<close> is.
\<close>

theorem binary_xentropy_log_of_zero:
  "binary_xentropy (Fin 1) (Fin 0) deriv = PInf
   \<and> binary_xentropy (Fin 0) (Fin 1) deriv = PInf
   \<and> \<not> is_finite (binary_xentropy (Fin 1) (Fin 0) deriv)
   \<and> \<not> is_finite (binary_xentropy (Fin 0) (Fin 1) deriv)
   \<and> flog (Fin 0) = NInf"
  by (simp add: binary_xentropy_def fsub_def is_finite_def signed_inf_def round64_zero round64_one)

text \<open>
  C10. Whenever \<open>batch_size\<close> is at most the number of rows of \<open>X\<close>, \<open>shuffle_and_batch\<close>
  returns \<^verbatim>\<open>None\<close>, which is no generator and no sequence: drawing items from the result,
  as a \<^verbatim>\<open>for\<close> loop over it does, raises \<open>TypeError\<close>.
\<close>

theorem shuffle_and_batch_returns_None:
  "batch_size \<le> int (length rows) \<Longrightarrow>
     fst (shuffle_and_batch (Arr rows) Y batch_size s) = Inr PyNone
     \<and> (case fst (shuffle_and_batch (Arr rows) Y batch_size s) of
           Inl e \<Rightarrow> Inl e
         | Inr batches \<Rightarrow> py_iter batches) = Inl TypeError"
  by (simp add: shuffle_and_batch_def)

theorem shuffle_and_batch_returns_None_witness:
  "(2::int) \<le> int (length [Arr [Sc (Fin 1), Sc (Fin 0)], Arr [Sc (Fin 0), Sc (Fin 1)]])
   \<and> fst (shuffle_and_batch (Arr [Arr [Sc (Fin 1), Sc (Fin 0)], Arr [Sc (Fin 0), Sc (Fin 1)]])
             (Arr [Arr [Sc (Fin 1)], Arr [Sc (Fin 1)]]) 2 notebook_state) = Inr PyNone
   \<and> py_iter PyNone = Inl TypeError"
  using shuffle_and_batch_returns_None
    [of 2 "[Arr [Sc (Fin 1), Sc (Fin 0)], Arr [Sc (Fin 0), Sc (Fin 1)]]"
        "Arr [Arr [Sc (Fin 1)], Arr [Sc (Fin 1)]]" notebook_state]
  by simp

end
